theory Spec2Isabelle
  imports Complex_Main "HOL-Library.Word" "HOL-Library.Sublist"
begin

section \<open>The command-builder page (script.js)\<close>

subsection \<open>JavaScript strings and the page state\<close>

text \<open>
  A JavaScript string is a sequence of UTF-16 code units. String literals of the script
  are ASCII; \<open>js\<close> turns an ASCII literal into its code units.
\<close>

type_synonym jsstring = "16 word list"

definition js :: "string \<Rightarrow> jsstring" where
  "js s = map (\<lambda>c. of_nat (of_char c)) s"

text \<open>
  An element of the page as far as the script reads and writes it: its \<open>textContent\<close>
  and its \<open>classList\<close> (a token list without repetitions).
\<close>

record element =
  textContent :: jsstring
  classList :: "jsstring list"

definition classList_add :: "jsstring \<Rightarrow> element \<Rightarrow> element" where
  "classList_add c e = (if c \<in> set (classList e) then e else e\<lparr>classList := classList e @ [c]\<rparr>)"

definition classList_remove :: "jsstring \<Rightarrow> element \<Rightarrow> element" where
  "classList_remove c e = e\<lparr>classList := filter (\<lambda>d. d \<noteq> c) (classList e)\<rparr>"

text \<open>A pending \<open>setTimeout\<close> callback: the only one the script registers hides the copy message.\<close>

datatype timerAction = HideCopyMessage

text \<open>
  The page: the values of the injected form controls by element id (\<open>None\<close> when no element
  has that id), the elements the script holds references to, the pending timers, and the
  browser's selection and clipboard.
\<close>

record page =
  inputs :: "jsstring \<rightharpoonup> jsstring"
  commandOutputDiv :: element
  generatedCommandPre :: element
  copyMessageP :: element
  logInputTextarea :: jsstring
  logOutputDiv :: element
  timers :: "(nat \<times> timerAction) list"
  selection :: jsstring
  clipboard :: "jsstring option"

subsection \<open>generateCommand\<close>

text \<open>\<open>document.getElementById(id)?.value\<close>: \<open>None\<close> is JavaScript's \<open>undefined\<close>.\<close>

definition getInputValue :: "page \<Rightarrow> jsstring \<Rightarrow> jsstring option" where
  "getInputValue p i = inputs p i"

text \<open>\<open>!v\<close> for a value that is a string or \<open>undefined\<close>.\<close>

definition falsy :: "jsstring option \<Rightarrow> bool" where
  "falsy v = (case v of None \<Rightarrow> True | Some s \<Rightarrow> s = [])"

text \<open>\<open>${v}\<close> inside a template literal.\<close>

definition interp :: "jsstring option \<Rightarrow> jsstring" where
  "interp v = (case v of None \<Rightarrow> js ''undefined'' | Some s \<Rightarrow> s)"

definition pleaseFill :: jsstring where
  "pleaseFill = js ''Please fill all required fields.''"

text \<open>The switch of \<open>generateCommand\<close>: the command string built and the \<open>isValid\<close> flag.\<close>

definition buildCommand :: "page \<Rightarrow> jsstring \<Rightarrow> jsstring \<times> bool" where
  "buildCommand p commandType =
    (let command = js ''python bot.py '' @ commandType in
     if commandType = js ''market-order'' then
       (let marketSymbol = getInputValue p (js ''symbol'');
            marketSide = getInputValue p (js ''side'');
            marketQuantity = getInputValue p (js ''quantity'')
        in (command @ js '' --symbol '' @ interp marketSymbol @ js '' --side '' @ interp marketSide
              @ js '' --quantity '' @ interp marketQuantity,
            \<not> (falsy marketSymbol \<or> falsy marketSide \<or> falsy marketQuantity)))
     else if commandType = js ''limit-order'' then
       (let limitSymbol = getInputValue p (js ''symbol'');
            limitSide = getInputValue p (js ''side'');
            limitQuantity = getInputValue p (js ''quantity'');
            limitPrice = getInputValue p (js ''price'')
        in (command @ js '' --symbol '' @ interp limitSymbol @ js '' --side '' @ interp limitSide
              @ js '' --quantity '' @ interp limitQuantity @ js '' --price '' @ interp limitPrice,
            \<not> (falsy limitSymbol \<or> falsy limitSide \<or> falsy limitQuantity \<or> falsy limitPrice)))
     else if commandType = js ''oco-order'' then
       (let ocoSymbol = getInputValue p (js ''symbol'');
            ocoSide = getInputValue p (js ''side'');
            ocoQuantity = getInputValue p (js ''quantity'');
            stopPrice = getInputValue p (js ''stop-price'');
            takeProfitPrice = getInputValue p (js ''take-profit-price'')
        in (command @ js '' --symbol '' @ interp ocoSymbol @ js '' --side '' @ interp ocoSide
              @ js '' --quantity '' @ interp ocoQuantity @ js '' --stop-price '' @ interp stopPrice
              @ js '' --take-profit-price '' @ interp takeProfitPrice,
            \<not> (falsy ocoSymbol \<or> falsy ocoSide \<or> falsy ocoQuantity \<or> falsy stopPrice
                \<or> falsy takeProfitPrice)))
     else if commandType = js ''stop-limit-order'' then
       (let slSymbol = getInputValue p (js ''symbol'');
            slSide = getInputValue p (js ''side'');
            slQuantity = getInputValue p (js ''quantity'');
            slStopPrice = getInputValue p (js ''stop-price'');
            slLimitPrice = getInputValue p (js ''limit-price'')
        in (command @ js '' --symbol '' @ interp slSymbol @ js '' --side '' @ interp slSide
              @ js '' --quantity '' @ interp slQuantity @ js '' --stop-price '' @ interp slStopPrice
              @ js '' --limit-price '' @ interp slLimitPrice,
            \<not> (falsy slSymbol \<or> falsy slSide \<or> falsy slQuantity \<or> falsy slStopPrice
                \<or> falsy slLimitPrice)))
     else if commandType = js ''twap-order'' then
       (let twapSymbol = getInputValue p (js ''symbol'');
            twapSide = getInputValue p (js ''side'');
            totalQuantity = getInputValue p (js ''total-quantity'');
            numIntervals = getInputValue p (js ''num-intervals'');
            intervalSeconds = getInputValue p (js ''interval-seconds'')
        in (command @ js '' --symbol '' @ interp twapSymbol @ js '' --side '' @ interp twapSide
              @ js '' --total-quantity '' @ interp totalQuantity
              @ js '' --num-intervals '' @ interp numIntervals
              @ js '' --interval-seconds '' @ interp intervalSeconds,
            \<not> (falsy twapSymbol \<or> falsy twapSide \<or> falsy totalQuantity \<or> falsy numIntervals
                \<or> falsy intervalSeconds)))
     else if commandType = js ''grid-order'' then
       (let gridSymbol = getInputValue p (js ''symbol'');
            minPrice = getInputValue p (js ''min-price'');
            maxPrice = getInputValue p (js ''max-price'');
            numBuyOrders = getInputValue p (js ''num-buy-orders'');
            numSellOrders = getInputValue p (js ''num-sell-orders'');
            quantityPerOrder = getInputValue p (js ''quantity-per-order'')
        in (command @ js '' --symbol '' @ interp gridSymbol @ js '' --min-price '' @ interp minPrice
              @ js '' --max-price '' @ interp maxPrice
              @ js '' --num-buy-orders '' @ interp numBuyOrders
              @ js '' --num-sell-orders '' @ interp numSellOrders
              @ js '' --quantity-per-order '' @ interp quantityPerOrder,
            \<not> (falsy gridSymbol \<or> falsy minPrice \<or> falsy maxPrice \<or> falsy numBuyOrders
                \<or> falsy numSellOrders \<or> falsy quantityPerOrder)))
     else if commandType = js ''check-balance'' then (command, True)
     else (command, False))"

definition generateCommand :: "page \<Rightarrow> jsstring \<Rightarrow> page" where
  "generateCommand p commandType =
    (case buildCommand p commandType of (command, isValid) \<Rightarrow>
       if \<not> isValid then
         p\<lparr>generatedCommandPre :=
             classList_add (js ''text-red-400'') ((generatedCommandPre p)\<lparr>textContent := pleaseFill\<rparr>)\<rparr>
       else
         p\<lparr>generatedCommandPre :=
             classList_remove (js ''text-red-400'') ((generatedCommandPre p)\<lparr>textContent := command\<rparr>),
           commandOutputDiv := classList_remove (js ''hidden'') (commandOutputDiv p)\<rparr>)"

text \<open>
  The fields \<open>generateCommand\<close> reads for each command type the page offers, in the order
  in which their flags are appended; the flag of a field is \<open>--\<close> followed by the field's
  element id. \<open>None\<close> for a command type the page does not offer.
\<close>

definition commandFields :: "jsstring \<Rightarrow> jsstring list option" where
  "commandFields commandType =
    (if commandType = js ''market-order'' then Some [js ''symbol'', js ''side'', js ''quantity'']
     else if commandType = js ''limit-order'' then
       Some [js ''symbol'', js ''side'', js ''quantity'', js ''price'']
     else if commandType = js ''oco-order'' then
       Some [js ''symbol'', js ''side'', js ''quantity'', js ''stop-price'', js ''take-profit-price'']
     else if commandType = js ''stop-limit-order'' then
       Some [js ''symbol'', js ''side'', js ''quantity'', js ''stop-price'', js ''limit-price'']
     else if commandType = js ''twap-order'' then
       Some [js ''symbol'', js ''side'', js ''total-quantity'', js ''num-intervals'',
             js ''interval-seconds'']
     else if commandType = js ''grid-order'' then
       Some [js ''symbol'', js ''min-price'', js ''max-price'', js ''num-buy-orders'',
             js ''num-sell-orders'', js ''quantity-per-order'']
     else if commandType = js ''check-balance'' then Some []
     else None)"

definition flagPairs :: "page \<Rightarrow> jsstring list \<Rightarrow> jsstring" where
  "flagPairs p ids = concat (map (\<lambda>i. js '' --'' @ i @ js '' '' @ interp (inputs p i)) ids)"

subsection \<open>displayLog\<close>





subsection \<open>The copy handlers\<close>

text \<open>A \<open>copy\<close> event: the data set on its \<open>clipboardData\<close>, by format, and whether
  \<open>preventDefault\<close> was called.\<close>

record clipboardEvent =
  clipboardData :: "jsstring \<rightharpoonup> jsstring"
  defaultPrevented :: bool

text \<open>The document-level listener for \<open>copy\<close>.\<close>

definition copyListener :: "page \<Rightarrow> clipboardEvent \<Rightarrow> clipboardEvent" where
  "copyListener p e =
    (let commandText = textContent (generatedCommandPre p) in
     if commandText \<noteq> [] \<and> commandText \<noteq> pleaseFill then
       e\<lparr>clipboardData := (clipboardData e)(js ''text/plain'' \<mapsto> commandText),
         defaultPrevented := True\<rparr>
     else e)"

text \<open>
  \<open>document.execCommand('copy')\<close>: the browser fires a \<open>copy\<close> event with empty data at
  the document, whose only listener is \<open>copyListener\<close>; when the default was prevented the
  event's text becomes the clipboard's, otherwise the browser copies a non-empty selection.
\<close>

definition execCommandCopy :: "page \<Rightarrow> page" where
  "execCommandCopy p =
    (let e = copyListener p \<lparr>clipboardData = Map.empty, defaultPrevented = False\<rparr> in
     if defaultPrevented e then
       (case clipboardData e (js ''text/plain'') of
          None \<Rightarrow> p
        | Some t \<Rightarrow> p\<lparr>clipboard := Some t\<rparr>)
     else if selection p \<noteq> [] then p\<lparr>clipboard := Some (selection p)\<rparr>
     else p)"

definition copyCommand :: "page \<Rightarrow> page" where
  "copyCommand p =
    (let commandText = textContent (generatedCommandPre p) in
     if commandText \<noteq> [] \<and> commandText \<noteq> pleaseFill then
       (let p1 = execCommandCopy p;
            p2 = p1\<lparr>copyMessageP := classList_remove (js ''hidden'') (copyMessageP p1)\<rparr>
        in p2\<lparr>timers := timers p2 @ [(2000, HideCopyMessage)]\<rparr>)
     else p)"

text \<open>Running a timer's callback when it falls due.\<close>

fun fireTimer :: "timerAction \<Rightarrow> page \<Rightarrow> page" where
  "fireTimer HideCopyMessage p = p\<lparr>copyMessageP := classList_add (js ''hidden'') (copyMessageP p)\<rparr>"

text \<open>Pages used as concrete inputs.\<close>

definition blankElement :: element where
  "blankElement = \<lparr>textContent = [], classList = []\<rparr>"

definition hiddenElement :: element where
  "hiddenElement = \<lparr>textContent = [], classList = [js ''hidden'']\<rparr>"

definition loadedPage :: page where
  "loadedPage =
     \<lparr>inputs = Map.empty,
      commandOutputDiv = hiddenElement,
      generatedCommandPre = blankElement,
      copyMessageP = hiddenElement,
      logInputTextarea = [],
      logOutputDiv = hiddenElement,
      timers = [],
      selection = [],
      clipboard = None\<rparr>"

definition marketForm :: "string \<Rightarrow> string \<Rightarrow> string \<Rightarrow> page" where
  "marketForm symbolText sideText quantityText =
     loadedPage\<lparr>inputs := [js ''symbol'' \<mapsto> js symbolText, js ''side'' \<mapsto> js sideText,
                            js ''quantity'' \<mapsto> js quantityText]\<rparr>"

definition shownCommand :: "jsstring \<Rightarrow> page" where
  "shownCommand t = loadedPage\<lparr>generatedCommandPre := \<lparr>textContent = t, classList = []\<rparr>\<rparr>"

section \<open>The order engine, modelled from its specification\<close>

text \<open>
  The repository's files hold the command-builder page and the README. The validator and
  the strategy engine behind the commands the page builds are not among them; they are
  modelled here from the words of the specification. Prices and quantities are exact
  rationals: the floating tolerance the specification allows for is not modelled.
\<close>

subsection \<open>Data model\<close>

text \<open>Modelled from the spec: the order types of an OrderRequest (data model; no code present).\<close>

datatype OrderType = MARKET | LIMIT | STOP_MARKET | TAKE_PROFIT_MARKET | STOP_LIMIT

text \<open>Modelled from the spec: the per-symbol TradingRule of the Rule Store (no code present).\<close>

record TradingRule =
  tickSize :: rat
  stepSize :: rat
  minQty :: rat
  maxQty :: rat
  minPrice :: rat
  maxPrice :: rat
  minNotional :: rat

text \<open>
  Modelled from the spec: the OrderRequest (no code present). The side is kept as the text
  received, since the validator checks that it is BUY or SELL; an absent or non-numeric
  quantity, price or stop price is \<open>None\<close>.
\<close>

record OrderRequest =
  symbol :: string
  side :: string
  quantity :: "rat option"
  price :: "rat option"
  stopPrice :: "rat option"
  orderType :: OrderType

text \<open>
  Modelled from the spec: the ValidatedOrder (no code present), an OrderRequest whose
  quantity and prices were rounded down to the step and the tick.
\<close>

record ValidatedOrder =
  vSymbol :: string
  vSide :: string
  vQuantity :: rat
  vPrice :: "rat option"
  vStopPrice :: "rat option"
  vOrderType :: OrderType

text \<open>Modelled from the spec: the taxonomy of ValidationError (no code present).\<close>

datatype ValidationError =
  UnknownSymbol | InvalidSide | InvalidQuantity | QuantityOutOfRange
  | QuantityTooSmallAfterRounding | InvalidPrice | InvalidStopPriceDirection | BelowMinNotional

subsection \<open>Validator\<close>

text \<open>
  Modelled from the spec: the flooring function \<open>floor(q, s)\<close> of the engine (no code
  present): \<open>q\<close> rounded down to a multiple of \<open>s\<close>. A rule's step and tick are positive;
  for \<open>s = 0\<close> the quotient is 0 in HOL and so is the result.
\<close>

definition floorTo :: "rat \<Rightarrow> rat \<Rightarrow> rat" where
  "floorTo q s = of_int \<lfloor>q / s\<rfloor> * s"

text \<open>
  Modelled from the spec: the direction check of step 7 (no code present). The specification
  words it for stops: a SELL stop lies below the current price, a BUY stop above it. A
  take-profit trigger is taken to lie on the opposite side.
\<close>

definition correctStopSide :: "OrderType \<Rightarrow> string \<Rightarrow> rat \<Rightarrow> rat \<Rightarrow> bool" where
  "correctStopSide t sd stop cur =
     (if t = TAKE_PROFIT_MARKET then (if sd = ''SELL'' then cur < stop else stop < cur)
      else (if sd = ''SELL'' then stop < cur else cur < stop))"

text \<open>
  Modelled from the spec: step 6 of the validator (no code present). For LIMIT and
  STOP_LIMIT the price must be present and within the rule's range, and is floored to the
  tick; a floored price that is not positive fails. Other types carry no price.
\<close>

definition validatePrice :: "OrderRequest \<Rightarrow> TradingRule \<Rightarrow> ValidationError + rat option" where
  "validatePrice req rule =
     (if orderType req = LIMIT \<or> orderType req = STOP_LIMIT then
        (case price req of
           None \<Rightarrow> Inl InvalidPrice
         | Some p \<Rightarrow>
             if \<not> (minPrice rule \<le> p \<and> p \<le> maxPrice rule) then Inl InvalidPrice
             else (let fp = floorTo p (tickSize rule) in
                   if fp \<le> 0 then Inl InvalidPrice else Inr (Some fp)))
      else Inr None)"

text \<open>
  Modelled from the spec: step 7 of the validator (no code present). For STOP_MARKET,
  TAKE_PROFIT_MARKET and STOP_LIMIT the stop price must be present, positive and on the
  correct side of the current price; it is floored to the tick.
\<close>

definition validateStopPrice ::
  "rat \<Rightarrow> OrderRequest \<Rightarrow> TradingRule \<Rightarrow> ValidationError + rat option" where
  "validateStopPrice cur req rule =
     (if orderType req = STOP_MARKET \<or> orderType req = TAKE_PROFIT_MARKET
         \<or> orderType req = STOP_LIMIT then
        (case stopPrice req of
           None \<Rightarrow> Inl InvalidStopPriceDirection
         | Some s \<Rightarrow>
             if 0 < s \<and> correctStopSide (orderType req) (side req) s cur
             then Inr (Some (floorTo s (tickSize rule)))
             else Inl InvalidStopPriceDirection)
      else Inr None)"

text \<open>
  Modelled from the spec: the validator \<open>validate(request, rule)\<close> (no code present), its
  eight checks in the order listed, stopping at the first failure. \<open>cur\<close> is the current
  price, given from outside since validation makes no network call; the rule is \<open>None\<close>
  for an unknown symbol. The notional is taken on the floored quantity and price, with the
  current price standing in for an order that carries no price.
\<close>

definition validate ::
  "rat \<Rightarrow> OrderRequest \<Rightarrow> TradingRule option \<Rightarrow> ValidationError + ValidatedOrder" where
  "validate cur req ruleOpt =
     (case ruleOpt of
        None \<Rightarrow> Inl UnknownSymbol
      | Some rule \<Rightarrow>
          if side req \<noteq> ''BUY'' \<and> side req \<noteq> ''SELL'' then Inl InvalidSide
          else (case quantity req of
            None \<Rightarrow> Inl InvalidQuantity
          | Some q \<Rightarrow>
              if \<not> 0 < q then Inl InvalidQuantity
              else if \<not> (minQty rule \<le> q \<and> q \<le> maxQty rule) then Inl QuantityOutOfRange
              else (let fq = floorTo q (stepSize rule) in
                if fq = 0 then Inl QuantityTooSmallAfterRounding
                else (case validatePrice req rule of
                  Inl e \<Rightarrow> Inl e
                | Inr fp \<Rightarrow>
                    (case validateStopPrice cur req rule of
                       Inl e \<Rightarrow> Inl e
                     | Inr fs \<Rightarrow>
                         (let notional = (case fp of Some p \<Rightarrow> p * fq | None \<Rightarrow> cur * fq) in
                          if notional < minNotional rule then Inl BelowMinNotional
                          else Inr \<lparr>vSymbol = symbol req, vSide = side req, vQuantity = fq,
                                    vPrice = fp, vStopPrice = fs,
                                    vOrderType = orderType req\<rparr>))))))"

subsection \<open>Exchange Client Port and execution records\<close>


text \<open>
  Modelled from the spec: the status of an ExecutionRecord (no code present). The child's
  FAILED is written \<open>CHILD_FAILED\<close>, to keep it apart from the strategy's FAILED.
\<close>

datatype ExecStatus = PLACED | REJECTED | CHILD_FAILED | CANCELLED





subsection \<open>Strategy engine\<close>



text \<open>
  Modelled from the spec: the orders of a plan that are dispatched (no code present): the
  ValidatedOrders of the children that pass validation, which are the ones handed to the
  port.
\<close>

definition dispatchedOrders ::
  "rat \<Rightarrow> TradingRule option \<Rightarrow> OrderRequest list \<Rightarrow> ValidatedOrder list" where
  "dispatchedOrders cur ruleOpt reqs =
     concat (map (\<lambda>req. case validate cur req ruleOpt of Inl e \<Rightarrow> [] | Inr v \<Rightarrow> [v]) reqs)"



text \<open>
  Modelled from the spec: the slice quantity of a TWAP plan (no code present):
  \<open>totalQuantity / numIntervals\<close>, floored to the step.
\<close>

definition twapSliceQty :: "rat \<Rightarrow> nat \<Rightarrow> rat \<Rightarrow> rat" where
  "twapSliceQty totalQty n step = floorTo (totalQty / of_nat n) step"

text \<open>
  Modelled from the spec: the slice quantities of a TWAP plan (no code present): the slice
  quantity for all slices but the last, which takes
  \<open>totalQuantity - sliceQty * (numIntervals - 1)\<close>. A plan has at least one interval.
\<close>

definition twapSlices :: "rat \<Rightarrow> nat \<Rightarrow> rat \<Rightarrow> rat list" where
  "twapSlices totalQty n step =
     (if n = 0 then []
      else replicate (n - 1) (twapSliceQty totalQty n step)
           @ [totalQty - twapSliceQty totalQty n step * of_nat (n - 1)])"

text \<open>
  Modelled from the spec: the scheduled offsets of a TWAP plan (no code present):
  \<open>k * intervalSeconds\<close> for \<open>k = 0..numIntervals-1\<close>, from the start of the plan.
\<close>

definition twapOffsets :: "nat \<Rightarrow> nat \<Rightarrow> nat list" where
  "twapOffsets n intervalSeconds = map (\<lambda>k. k * intervalSeconds) [0..<n]"

text \<open>
  Modelled from the spec: the children of a TWAP plan (no code present): one MARKET order
  per slice.
\<close>

definition twapChildren :: "string \<Rightarrow> string \<Rightarrow> rat \<Rightarrow> nat \<Rightarrow> TradingRule \<Rightarrow> OrderRequest list" where
  "twapChildren sy sd totalQty n rule =
     map (\<lambda>q. \<lparr>symbol = sy, side = sd, quantity = Some q, price = None, stopPrice = None,
               orderType = MARKET\<rparr>)
       (twapSlices totalQty n (stepSize rule))"







text \<open>A rule used as concrete input: the step, tick and bounds of a BTCUSDT-like symbol.\<close>

definition btcRule :: TradingRule where
  "btcRule = \<lparr>tickSize = 1 / 10, stepSize = 1 / 1000, minQty = 1 / 1000, maxQty = 1000,
              minPrice = 500, maxPrice = 1000000, minNotional = 5\<rparr>"


definition marketRequest :: "string \<Rightarrow> rat \<Rightarrow> OrderRequest" where
  "marketRequest sd q =
     \<lparr>symbol = ''BTCUSDT'', side = sd, quantity = Some q, price = None, stopPrice = None,
      orderType = MARKET\<rparr>"



text \<open>The quantity a request asks for; 0 when it has none.\<close>

definition qtyOf :: "OrderRequest \<Rightarrow> rat" where
  "qtyOf req = (case quantity req of None \<Rightarrow> 0 | Some q \<Rightarrow> q)"


section \<open>Properties of the command-builder page\<close>

subsection \<open>String literals\<close>

lemma of_char_lt_256: "(of_char c :: nat) < 256"
  using of_char_mod_256 [where ?'a = nat, of c] by (metis mod_less_divisor zero_less_numeral)

lemma js_inject: "js a = js b \<longleftrightarrow> a = b"
proof -
  have "inj (\<lambda>c::char. (of_nat (of_char c) :: 16 word))"
  proof (rule injI)
    fix x y :: char
    assume "(of_nat (of_char x) :: 16 word) = of_nat (of_char y)"
    then have "unat (of_nat (of_char x :: nat) :: 16 word) = unat (of_nat (of_char y :: nat) :: 16 word)"
      by simp
    then have "(of_char x :: nat) mod 65536 = of_char y mod 65536"
      by (simp add: unat_of_nat)
    moreover have "(of_char x :: nat) < 65536" "(of_char y :: nat) < 65536"
      by (rule less_trans [OF of_char_lt_256], simp)+
    ultimately have "(of_char x :: nat) = of_char y" by simp
    then show "x = y" by simp
  qed
  then show ?thesis unfolding js_def by (simp add: inj_map_eq_map)
qed

lemma js_append: "js (a @ b) = js a @ js b"
  by (simp add: js_def)

lemma js_eq_Nil: "js a = [] \<longleftrightarrow> a = []"
  by (simp add: js_def)

subsection \<open>generateCommand\<close>

text \<open>
  The switch of \<open>generateCommand\<close>, case by case, against the table \<open>commandFields\<close>: the
  command is the base command followed by the flag and value of each field in order, and
  \<open>isValid\<close> says that no field is empty or missing.
\<close>

lemma buildCommand_fields:
  assumes "commandFields ct = Some ids"
  shows "buildCommand p ct =
    (js ''python bot.py '' @ ct @ flagPairs p ids, \<not> (\<exists>i\<in>set ids. falsy (inputs p i)))"
  using assms
  unfolding commandFields_def buildCommand_def flagPairs_def getInputValue_def Let_def
  by (auto simp add: js_inject js_append [symmetric] split: if_splits)

lemma falsy_iff: "falsy v \<longleftrightarrow> v = None \<or> v = Some []"
  by (simp add: falsy_def split: option.splits)

lemma all_filled_iff:
  "(\<forall>i\<in>set ids. \<exists>v. inputs p i = Some v \<and> v \<noteq> []) \<longleftrightarrow> \<not> (\<exists>i\<in>set ids. falsy (inputs p i))"
  by (auto simp add: falsy_iff)

lemma marketFields: "commandFields (js ''market-order'') = Some [js ''symbol'', js ''side'', js ''quantity'']"
  by (simp add: commandFields_def)

lemma marketForm_inputs:
  "inputs (marketForm a b c) (js ''symbol'') = Some (js a)"
  "inputs (marketForm a b c) (js ''side'') = Some (js b)"
  "inputs (marketForm a b c) (js ''quantity'') = Some (js c)"
  by (simp_all add: marketForm_def js_inject)

text \<open>
  C8. For every command type the page supports and every assignment of the input fields:
  if a required field is empty, or its element is absent, the text shown is exactly
  ``Please fill all required fields.'' and the command output area is left as it was (it is
  not unhidden); if every required field is non-empty, the text shown is
  \<open>python bot.py\<close>, the command type and every flag with its value in the fixed order of
  \<open>commandFields\<close>, and the output area is not hidden.
\<close>

theorem generateCommand_required_fields:
  assumes "commandFields commandType = Some ids"
  shows "((\<exists>i\<in>set ids. inputs p i = None \<or> inputs p i = Some []) \<longrightarrow>
            textContent (generatedCommandPre (generateCommand p commandType)) = pleaseFill
          \<and> commandOutputDiv (generateCommand p commandType) = commandOutputDiv p)
       \<and> ((\<forall>i\<in>set ids. \<exists>v. inputs p i = Some v \<and> v \<noteq> []) \<longrightarrow>
            textContent (generatedCommandPre (generateCommand p commandType))
              = js ''python bot.py '' @ commandType @ flagPairs p ids
          \<and> js ''hidden'' \<notin> set (classList (commandOutputDiv (generateCommand p commandType))))"
  unfolding all_filled_iff
  by (auto simp add: generateCommand_def buildCommand_fields [OF assms] falsy_iff
      classList_add_def classList_remove_def)

theorem generateCommand_required_fields_witness:
  "textContent (generatedCommandPre
      (generateCommand (marketForm ''BTCUSDT'' ''BUY'' ''0.001'') (js ''market-order'')))
     = js ''python bot.py market-order --symbol BTCUSDT --side BUY --quantity 0.001''
   \<and> js ''hidden'' \<notin> set (classList (commandOutputDiv
      (generateCommand (marketForm ''BTCUSDT'' ''BUY'' ''0.001'') (js ''market-order''))))
   \<and> textContent (generatedCommandPre
      (generateCommand (marketForm ''BTCUSDT'' [] ''0.001'') (js ''market-order''))) = pleaseFill
   \<and> commandOutputDiv (generateCommand (marketForm ''BTCUSDT'' [] ''0.001'') (js ''market-order''))
     = hiddenElement"
proof -
  have filled: "\<forall>i\<in>set [js ''symbol'', js ''side'', js ''quantity''].
      \<exists>v. inputs (marketForm ''BTCUSDT'' ''BUY'' ''0.001'') i = Some v \<and> v \<noteq> []"
    by (simp add: marketForm_inputs js_eq_Nil)
  have empty: "\<exists>i\<in>set [js ''symbol'', js ''side'', js ''quantity''].
      inputs (marketForm ''BTCUSDT'' [] ''0.001'') i = None
      \<or> inputs (marketForm ''BTCUSDT'' [] ''0.001'') i = Some []"
    by (simp add: marketForm_inputs js_eq_Nil)
  have flags: "js ''python bot.py '' @ js ''market-order''
      @ flagPairs (marketForm ''BTCUSDT'' ''BUY'' ''0.001'') [js ''symbol'', js ''side'', js ''quantity'']
      = js ''python bot.py market-order --symbol BTCUSDT --side BUY --quantity 0.001''"
    by (simp add: flagPairs_def marketForm_inputs interp_def js_append [symmetric])
  have out: "commandOutputDiv (marketForm ''BTCUSDT'' [] ''0.001'') = hiddenElement"
    by (simp add: marketForm_def loadedPage_def)
  show ?thesis
    using generateCommand_required_fields [OF marketFields,
        of "marketForm ''BTCUSDT'' ''BUY'' ''0.001''"]
      generateCommand_required_fields [OF marketFields,
        of "marketForm ''BTCUSDT'' [] ''0.001''"]
      filled empty
    unfolding flags out by blast
qed

text \<open>
  C1, as stated, fails: with the symbol field left empty the text shown is the fixed
  message, which does not begin with \<open>python bot.py\<close>.
\<close>

theorem generateCommand_empty_field_counterexample:
  "textContent (generatedCommandPre
      (generateCommand (marketForm [] ''BUY'' ''0.001'') (js ''market-order''))) = pleaseFill
   \<and> \<not> prefix (js ''python bot.py '') pleaseFill"
proof -
  have "buildCommand (marketForm [] ''BUY'' ''0.001'') (js ''market-order'')
      = (js ''python bot.py '' @ js ''market-order''
          @ flagPairs (marketForm [] ''BUY'' ''0.001'') [js ''symbol'', js ''side'', js ''quantity''],
         False)"
    by (simp add: buildCommand_fields [OF marketFields] marketForm_inputs falsy_iff js_eq_Nil)
  then have "textContent (generatedCommandPre
      (generateCommand (marketForm [] ''BUY'' ''0.001'') (js ''market-order''))) = pleaseFill"
    by (simp add: generateCommand_def classList_add_def)
  moreover have "\<not> prefix (js ''python bot.py '') pleaseFill"
    by (simp add: pleaseFill_def js_def)
  ultimately show ?thesis by simp
qed

text \<open>
  C1, amended. For every command type the page offers and every assignment of the input
  fields: when every required field is non-empty, \<open>generateCommand\<close> shows the string
  \<open>python bot.py\<close>, the command type and the flag and value of each field, whatever the
  values are (no value is checked against a trading rule); when a required field is empty
  or absent, it shows the fixed message. In both cases the page changes in the text and the
  red-text class of the command element and in the hidden class of the output area, and in
  nothing else: no request leaves the page.
\<close>

theorem generateCommand_only_stringifies:
  assumes "commandFields commandType = Some ids"
  shows "((\<forall>i\<in>set ids. \<exists>v. inputs p i = Some v \<and> v \<noteq> []) \<longrightarrow>
            generateCommand p commandType =
              p\<lparr>generatedCommandPre :=
                  classList_remove (js ''text-red-400'')
                    ((generatedCommandPre p)\<lparr>textContent :=
                        js ''python bot.py '' @ commandType @ flagPairs p ids\<rparr>),
                commandOutputDiv := classList_remove (js ''hidden'') (commandOutputDiv p)\<rparr>
            \<and> prefix (js ''python bot.py '')
                (textContent (generatedCommandPre (generateCommand p commandType))))
       \<and> ((\<exists>i\<in>set ids. inputs p i = None \<or> inputs p i = Some []) \<longrightarrow>
            generateCommand p commandType =
              p\<lparr>generatedCommandPre :=
                  classList_add (js ''text-red-400'')
                    ((generatedCommandPre p)\<lparr>textContent := pleaseFill\<rparr>)\<rparr>)"
  unfolding all_filled_iff
  by (auto simp add: generateCommand_def buildCommand_fields [OF assms] falsy_iff
      classList_remove_def)

theorem generateCommand_only_stringifies_witness:
  "generateCommand (marketForm ''NOT A SYMBOL'' ''SELL'' ''-5'') (js ''market-order'') =
     (marketForm ''NOT A SYMBOL'' ''SELL'' ''-5'')
       \<lparr>generatedCommandPre :=
          \<lparr>textContent =
             js ''python bot.py market-order --symbol NOT A SYMBOL --side SELL --quantity -5'',
           classList = []\<rparr>,
        commandOutputDiv := \<lparr>textContent = [], classList = []\<rparr>\<rparr>
   \<and> generateCommand (marketForm ''BTCUSDT'' ''SELL'' []) (js ''market-order'') =
     (marketForm ''BTCUSDT'' ''SELL'' [])
       \<lparr>generatedCommandPre :=
          \<lparr>textContent = pleaseFill, classList = [js ''text-red-400'']\<rparr>\<rparr>"
proof -
  have filled: "\<forall>i\<in>set [js ''symbol'', js ''side'', js ''quantity''].
      \<exists>v. inputs (marketForm ''NOT A SYMBOL'' ''SELL'' ''-5'') i = Some v \<and> v \<noteq> []"
    by (simp add: marketForm_inputs js_eq_Nil)
  have empty: "\<exists>i\<in>set [js ''symbol'', js ''side'', js ''quantity''].
      inputs (marketForm ''BTCUSDT'' ''SELL'' []) i = None
      \<or> inputs (marketForm ''BTCUSDT'' ''SELL'' []) i = Some []"
    by (simp add: marketForm_inputs js_eq_Nil)
  have flags: "js ''python bot.py '' @ js ''market-order''
      @ flagPairs (marketForm ''NOT A SYMBOL'' ''SELL'' ''-5'')
          [js ''symbol'', js ''side'', js ''quantity'']
      = js ''python bot.py market-order --symbol NOT A SYMBOL --side SELL --quantity -5''"
    by (simp add: flagPairs_def marketForm_inputs interp_def js_append [symmetric])
  have els: "generatedCommandPre (marketForm a b c) = blankElement"
    "commandOutputDiv (marketForm a b c) = hiddenElement" for a b c
    by (simp_all add: marketForm_def loadedPage_def)
  have 1: "generateCommand (marketForm ''NOT A SYMBOL'' ''SELL'' ''-5'') (js ''market-order'') =
     (marketForm ''NOT A SYMBOL'' ''SELL'' ''-5'')
       \<lparr>generatedCommandPre :=
          \<lparr>textContent =
             js ''python bot.py market-order --symbol NOT A SYMBOL --side SELL --quantity -5'',
           classList = []\<rparr>,
        commandOutputDiv := \<lparr>textContent = [], classList = []\<rparr>\<rparr>"
  proof -
    have "generateCommand (marketForm ''NOT A SYMBOL'' ''SELL'' ''-5'') (js ''market-order'') =
      (marketForm ''NOT A SYMBOL'' ''SELL'' ''-5'')
        \<lparr>generatedCommandPre :=
            classList_remove (js ''text-red-400'')
              ((generatedCommandPre (marketForm ''NOT A SYMBOL'' ''SELL'' ''-5''))\<lparr>textContent :=
                  js ''python bot.py '' @ js ''market-order''
                  @ flagPairs (marketForm ''NOT A SYMBOL'' ''SELL'' ''-5'')
                      [js ''symbol'', js ''side'', js ''quantity'']\<rparr>),
          commandOutputDiv := classList_remove (js ''hidden'')
              (commandOutputDiv (marketForm ''NOT A SYMBOL'' ''SELL'' ''-5''))\<rparr>"
      using generateCommand_only_stringifies [OF marketFields,
          of "marketForm ''NOT A SYMBOL'' ''SELL'' ''-5''"] filled by blast
    then show ?thesis
      unfolding flags els
      by (simp add: classList_remove_def blankElement_def hiddenElement_def js_inject)
  qed
  have 2: "generateCommand (marketForm ''BTCUSDT'' ''SELL'' []) (js ''market-order'') =
     (marketForm ''BTCUSDT'' ''SELL'' [])
       \<lparr>generatedCommandPre :=
          \<lparr>textContent = pleaseFill, classList = [js ''text-red-400'']\<rparr>\<rparr>"
  proof -
    have "generateCommand (marketForm ''BTCUSDT'' ''SELL'' []) (js ''market-order'') =
      (marketForm ''BTCUSDT'' ''SELL'' [])
        \<lparr>generatedCommandPre :=
            classList_add (js ''text-red-400'')
              ((generatedCommandPre (marketForm ''BTCUSDT'' ''SELL'' []))\<lparr>textContent :=
                  pleaseFill\<rparr>)\<rparr>"
      using generateCommand_only_stringifies [OF marketFields,
          of "marketForm ''BTCUSDT'' ''SELL'' []"] empty by blast
    then show ?thesis
      unfolding els by (simp add: classList_add_def blankElement_def)
  qed
  show ?thesis using 1 2 by (rule conjI)
qed

subsection \<open>displayLog\<close>




subsection \<open>The copy handlers\<close>

text \<open>
  C10. With \<open>t\<close> the text of the generated command: when \<open>t\<close> is non-empty and is not
  the fixed message, the copy listener sets \<open>t\<close> as the event's plain text and prevents the
  default, and \<open>copyCommand\<close> puts \<open>t\<close> on the clipboard and shows the confirmation;
  otherwise the listener leaves the event as it is and \<open>copyCommand\<close> changes nothing. So
  neither handler places the fixed message or an empty text on the clipboard.
\<close>

theorem copy_handlers_guarded:
  "(let t = textContent (generatedCommandPre p) in
     (t \<noteq> [] \<and> t \<noteq> pleaseFill \<longrightarrow>
        copyListener p e = e\<lparr>clipboardData := (clipboardData e)(js ''text/plain'' \<mapsto> t),
                              defaultPrevented := True\<rparr>
        \<and> clipboard (copyCommand p) = Some t
        \<and> js ''hidden'' \<notin> set (classList (copyMessageP (copyCommand p))))
     \<and> (\<not> (t \<noteq> [] \<and> t \<noteq> pleaseFill) \<longrightarrow> copyListener p e = e \<and> copyCommand p = p))"
  by (simp add: Let_def copyListener_def copyCommand_def execCommandCopy_def classList_remove_def)

theorem copy_handlers_guarded_witness:
  "copyListener (shownCommand (js ''python bot.py check-balance''))
       \<lparr>clipboardData = Map.empty, defaultPrevented = False\<rparr>
     = \<lparr>clipboardData = [js ''text/plain'' \<mapsto> js ''python bot.py check-balance''],
        defaultPrevented = True\<rparr>
   \<and> clipboard (copyCommand (shownCommand (js ''python bot.py check-balance'')))
     = Some (js ''python bot.py check-balance'')
   \<and> js ''hidden'' \<notin> set (classList (copyMessageP
        (copyCommand (shownCommand (js ''python bot.py check-balance'')))))
   \<and> copyListener (shownCommand pleaseFill) \<lparr>clipboardData = Map.empty, defaultPrevented = False\<rparr>
     = \<lparr>clipboardData = Map.empty, defaultPrevented = False\<rparr>
   \<and> copyCommand (shownCommand pleaseFill) = shownCommand pleaseFill
   \<and> copyCommand (shownCommand []) = shownCommand []"
proof -
  have t1: "textContent (generatedCommandPre (shownCommand t)) = t" for t
    by (simp add: shownCommand_def)
  have ne: "js ''python bot.py check-balance'' \<noteq> [] \<and> js ''python bot.py check-balance'' \<noteq> pleaseFill"
    by (simp add: pleaseFill_def js_inject js_eq_Nil)
  show ?thesis
    using copy_handlers_guarded [of "shownCommand (js ''python bot.py check-balance'')"
        "\<lparr>clipboardData = Map.empty, defaultPrevented = False\<rparr>"]
      copy_handlers_guarded [of "shownCommand pleaseFill"
        "\<lparr>clipboardData = Map.empty, defaultPrevented = False\<rparr>"]
      copy_handlers_guarded [of "shownCommand []"
        "\<lparr>clipboardData = Map.empty, defaultPrevented = False\<rparr>"]
      ne
    by (simp add: Let_def t1)
qed

section \<open>Properties of the order engine\<close>

subsection \<open>Flooring\<close>

lemma floorTo_le: "0 < s \<Longrightarrow> floorTo q s \<le> q"
proof -
  assume s: "0 < s"
  have "of_int \<lfloor>q / s\<rfloor> \<le> q / s" by simp
  then have "of_int \<lfloor>q / s\<rfloor> * s \<le> q / s * s" using s by (simp only: mult_le_cancel_right_pos)
  then show ?thesis using s by (simp add: floorTo_def)
qed

lemma floorTo_gt: "0 < s \<Longrightarrow> q - s < floorTo q s"
proof -
  assume s: "0 < s"
  have "q / s < of_int \<lfloor>q / s\<rfloor> + 1" by linarith
  then have "q / s * s < (of_int \<lfloor>q / s\<rfloor> + 1) * s" using s by (simp only: mult_less_cancel_right_pos)
  then show ?thesis using s by (simp add: floorTo_def algebra_simps)
qed

lemma floorTo_multiple: "\<exists>k::int. floorTo q s = of_int k * s"
  unfolding floorTo_def by blast

lemma floorTo_add_multiple: "0 < s \<Longrightarrow> floorTo (q + of_int k * s) s = floorTo q s + of_int k * s"
proof -
  assume s: "0 < s"
  then have "(q + of_int k * s) / s = q / s + of_int k" by (simp add: field_simps)
  then show ?thesis by (simp add: floorTo_def algebra_simps)
qed

lemma floorTo_of_multiple: "0 < s \<Longrightarrow> floorTo (of_int k * s) s = of_int k * s"
  by (simp add: floorTo_def)

lemma floorTo_mono: "0 < s \<Longrightarrow> a \<le> b \<Longrightarrow> floorTo a s \<le> floorTo b s"
proof -
  assume s: "0 < s" and ab: "a \<le> b"
  then have "a / s \<le> b / s" by (simp add: divide_right_mono)
  then have "\<lfloor>a / s\<rfloor> \<le> \<lfloor>b / s\<rfloor>" by (rule floor_mono)
  then show ?thesis using s by (simp add: floorTo_def)
qed

lemma floorTo_eqI:
  "0 < s \<Longrightarrow> of_int k * s \<le> q \<Longrightarrow> q < (of_int k + 1) * s \<Longrightarrow> floorTo q s = of_int k * s"
proof -
  assume s: "0 < s" and lo: "of_int k * s \<le> q" and hi: "q < (of_int k + 1) * s"
  have "of_int k \<le> q / s" using s lo by (simp add: pos_le_divide_eq)
  moreover have "q / s < of_int k + 1" using s hi by (simp add: pos_divide_less_eq)
  ultimately have "\<lfloor>q / s\<rfloor> = k" by (rule floor_unique)
  then show ?thesis by (simp add: floorTo_def)
qed


lemma floor_9: "floorTo (9 / 10000) (1 / 1000) = 0"
  using floorTo_eqI [of "1 / 1000" 0 "9 / 10000"] by simp

lemma floor_27: "floorTo (27 / 10000) (1 / 1000) = 2 / 1000"
  using floorTo_eqI [of "1 / 1000" 2 "27 / 10000"] by simp


text \<open>
  C7. For every quantity \<open>q\<close> and every step \<open>s > 0\<close>, the flooring function of the engine
  gives a value that is not above \<open>q\<close> and is an integer multiple of \<open>s\<close>.
\<close>

theorem floorTo_below_and_multiple:
  "0 < s \<Longrightarrow> floorTo q s \<le> q \<and> (\<exists>k::int. floorTo q s = of_int k * s)"
  by (simp add: floorTo_le floorTo_multiple)

theorem floorTo_below_and_multiple_witness:
  "(0::rat) < 1 / 1000 \<and> floorTo (27 / 10000) (1 / 1000) \<le> 27 / 10000
   \<and> floorTo (27 / 10000) (1 / 1000) = of_int 2 * (1 / 1000)"
proof -
  have "floorTo (27 / 10000) (1 / 1000) = of_int 2 * (1 / 1000)"
    by (rule floorTo_eqI) simp_all
  then show ?thesis
    using floorTo_below_and_multiple [of "1 / 1000" "27 / 10000"] by simp
qed

subsection \<open>Validator\<close>

text \<open>
  C2, as stated, fails: the range check comes before the rounding. A positive quantity
  0.0009 against a rule with step 0.001 and least quantity 0.001 floors to 0, yet the
  validator fails with QuantityOutOfRange, not with QuantityTooSmallAfterRounding.
\<close>

theorem validate_range_before_rounding_counterexample:
  "validate 100000 (marketRequest ''BUY'' (9 / 10000)) (Some btcRule) = Inl QuantityOutOfRange
   \<and> floorTo (9 / 10000) (stepSize btcRule) = 0 \<and> 0 < stepSize btcRule"
  by (simp add: validate_def marketRequest_def btcRule_def floor_9)

text \<open>
  C2, amended. For every request with a positive quantity \<open>q\<close> and every rule with a
  positive step: a validated order carries \<open>q\<close> rounded down to an integer multiple of the
  step, never above \<open>q\<close>; and if the side is BUY or SELL, \<open>q\<close> lies within the rule's
  quantity range and the flooring yields 0, the validator fails with
  QuantityTooSmallAfterRounding. So does the validation of 0.0009 against a step of 0.001
  under a rule whose least quantity is not above 0.0009.
\<close>

theorem validate_floors_quantity:
  assumes "0 < stepSize rule" and "quantity req = Some q" and "0 < q"
  shows "(\<forall>v. validate cur req (Some rule) = Inr v \<longrightarrow>
            vQuantity v = floorTo q (stepSize rule) \<and> vQuantity v \<le> q
            \<and> (\<exists>k::int. vQuantity v = of_int k * stepSize rule))
       \<and> ((side req = ''BUY'' \<or> side req = ''SELL'') \<and> minQty rule \<le> q \<and> q \<le> maxQty rule
            \<and> floorTo q (stepSize rule) = 0 \<longrightarrow>
          validate cur req (Some rule) = Inl QuantityTooSmallAfterRounding)"
proof -
  have a: "vQuantity v = floorTo q (stepSize rule)" if "validate cur req (Some rule) = Inr v" for v
    using that assms(2)
    by (auto simp add: validate_def Let_def split: if_splits sum.splits option.splits)
  have b: "validate cur req (Some rule) = Inl QuantityTooSmallAfterRounding"
    if "side req = ''BUY'' \<or> side req = ''SELL''" "minQty rule \<le> q" "q \<le> maxQty rule"
      "floorTo q (stepSize rule) = 0"
    using that assms(2,3) by (auto simp add: validate_def Let_def)
  show ?thesis
    using a b floorTo_le [OF assms(1), of q] floorTo_multiple [of q "stepSize rule"] by auto
qed

theorem validate_floors_quantity_witness:
  "validate 100000 (marketRequest ''BUY'' (9 / 10000)) (Some (btcRule\<lparr>minQty := 1 / 10000\<rparr>))
     = Inl QuantityTooSmallAfterRounding
   \<and> validate 100000 (marketRequest ''BUY'' (27 / 10000)) (Some btcRule)
     = Inr \<lparr>vSymbol = ''BTCUSDT'', vSide = ''BUY'', vQuantity = 2 / 1000, vPrice = None,
            vStopPrice = None, vOrderType = MARKET\<rparr>
   \<and> (2 / 1000 :: rat) \<le> 27 / 10000"
proof -
  have s: "0 < stepSize (btcRule\<lparr>minQty := 1 / 10000\<rparr>)" by (simp add: btcRule_def)
  have q: "quantity (marketRequest ''BUY'' (9 / 10000)) = Some (9 / 10000)"
    by (simp add: marketRequest_def)
  have h: "(side (marketRequest ''BUY'' (9 / 10000)) = ''BUY''
        \<or> side (marketRequest ''BUY'' (9 / 10000)) = ''SELL'')
      \<and> minQty (btcRule\<lparr>minQty := 1 / 10000\<rparr>) \<le> 9 / 10000
      \<and> 9 / 10000 \<le> maxQty (btcRule\<lparr>minQty := 1 / 10000\<rparr>)
      \<and> floorTo (9 / 10000) (stepSize (btcRule\<lparr>minQty := 1 / 10000\<rparr>)) = 0"
    by (simp add: marketRequest_def btcRule_def floor_9)
  have v: "validate 100000 (marketRequest ''BUY'' (27 / 10000)) (Some btcRule)
     = Inr \<lparr>vSymbol = ''BTCUSDT'', vSide = ''BUY'', vQuantity = 2 / 1000, vPrice = None,
            vStopPrice = None, vOrderType = MARKET\<rparr>"
    by (simp add: validate_def validatePrice_def validateStopPrice_def marketRequest_def
        btcRule_def floor_27)
  show ?thesis
    using validate_floors_quantity [OF s q, of 100000] h v by simp
qed





subsection \<open>Terminal status of a strategy\<close>










subsection \<open>TWAP\<close>

lemma validate_Inr_quantity:
  assumes "validate cur req (Some rule) = Inr v"
  shows "0 < qtyOf req \<and> vQuantity v = floorTo (qtyOf req) (stepSize rule)"
  using assms
  by (auto simp add: validate_def qtyOf_def Let_def split: if_splits sum.splits option.splits)

lemma dispatchedOrders_Cons:
  "dispatchedOrders cur ro (r # rs) =
     (case validate cur r ro of Inl e \<Rightarrow> [] | Inr v \<Rightarrow> [v]) @ dispatchedOrders cur ro rs"
  by (simp add: dispatchedOrders_def)

lemma dispatchedOrders_Nil: "dispatchedOrders cur ro [] = []"
  by (simp add: dispatchedOrders_def)

lemma dispatched_all_valid:
  assumes "\<forall>req\<in>set reqs. \<exists>v. validate cur req (Some rule) = Inr v"
  shows "map vQuantity (dispatchedOrders cur (Some rule) reqs)
    = map (\<lambda>req. floorTo (qtyOf req) (stepSize rule)) reqs"
  using assms
proof (induction reqs)
  case Nil
  then show ?case by (simp add: dispatchedOrders_Nil)
next
  case (Cons r rs)
  then obtain v where v: "validate cur r (Some rule) = Inr v" by auto
  from Cons have "map vQuantity (dispatchedOrders cur (Some rule) rs)
    = map (\<lambda>req. floorTo (qtyOf req) (stepSize rule)) rs" by simp
  then show ?case
    using v validate_Inr_quantity [OF v] by (simp add: dispatchedOrders_Cons)
qed

lemma dispatched_sum_le:
  assumes "0 < stepSize rule" and "\<forall>req\<in>set reqs. 0 \<le> qtyOf req"
  shows "sum_list (map vQuantity (dispatchedOrders cur (Some rule) reqs))
    \<le> sum_list (map qtyOf reqs)"
  using assms(2)
proof (induction reqs)
  case Nil
  then show ?case by (simp add: dispatchedOrders_Nil)
next
  case (Cons r rs)
  then have ih: "sum_list (map vQuantity (dispatchedOrders cur (Some rule) rs))
    \<le> sum_list (map qtyOf rs)" and r: "0 \<le> qtyOf r" by simp_all
  show ?case
  proof (cases "validate cur r (Some rule)")
    case (Inl e)
    then show ?thesis using ih r by (simp add: dispatchedOrders_Cons)
  next
    case (Inr v)
    have "vQuantity v \<le> qtyOf r"
      using validate_Inr_quantity [OF Inr] floorTo_le [OF assms(1), of "qtyOf r"] by simp
    then show ?thesis using ih Inr by (simp add: dispatchedOrders_Cons)
  qed
qed

lemma twapChildren_qty:
  "map qtyOf (twapChildren sy sd totalQty n rule) = twapSlices totalQty n (stepSize rule)"
  by (simp add: twapChildren_def qtyOf_def comp_def)

lemma twapSlices_sum: "1 \<le> n \<Longrightarrow> sum_list (twapSlices totalQty n step) = totalQty"
  by (simp add: twapSlices_def sum_list_replicate)

lemma sum_list_map_replicate_snoc:
  "sum_list (map f (replicate m x @ [y])) = of_nat m * (f x :: rat) + f y"
  by (simp add: sum_list_replicate)

lemma twapSlices_floored_sum:
  assumes "1 \<le> n" and "0 < step"
  shows "sum_list (map (\<lambda>q. floorTo q step) (twapSlices totalQty n step)) = floorTo totalQty step"
proof -
  define k where "k = \<lfloor>totalQty / of_nat n / step\<rfloor>"
  have sq: "twapSliceQty totalQty n step = of_int k * step"
    by (simp add: twapSliceQty_def floorTo_def k_def)
  have a: "floorTo (of_int k * step) step = of_int k * step"
    using assms(2) by (rule floorTo_of_multiple)
  have eq: "totalQty - of_int k * step * of_nat (n - 1)
      = totalQty + of_int (- (k * int (n - 1))) * step"
    by (simp add: algebra_simps)
  have b: "floorTo (totalQty - of_int k * step * of_nat (n - 1)) step
      = floorTo totalQty step + of_int (- (k * int (n - 1))) * step"
    unfolding eq using assms(2) by (rule floorTo_add_multiple)
  have sl: "twapSlices totalQty n step
      = replicate (n - 1) (of_int k * step) @ [totalQty - of_int k * step * of_nat (n - 1)]"
    using assms(1) by (simp add: twapSlices_def sq)
  have "sum_list (map (\<lambda>q. floorTo q step) (twapSlices totalQty n step))
      = of_nat (n - 1) * floorTo (of_int k * step) step
        + floorTo (totalQty - of_int k * step * of_nat (n - 1)) step"
    unfolding sl by (rule sum_list_map_replicate_snoc)
  also have "\<dots> = of_nat (n - 1) * (of_int k * step)
        + (floorTo totalQty step + of_int (- (k * int (n - 1))) * step)"
    by (simp only: a b)
  also have "\<dots> = floorTo totalQty step" by (simp add: algebra_simps)
  finally show ?thesis .
qed

lemma twapSlices_nonneg:
  assumes "1 \<le> n" and "0 < step" and "0 \<le> totalQty"
  shows "\<forall>q\<in>set (twapSlices totalQty n step). 0 \<le> q"
proof -
  have n: "(0::rat) < of_nat n" using assms(1) by simp
  have "floorTo 0 step \<le> floorTo (totalQty / of_nat n) step"
    using assms(3) n by (intro floorTo_mono [OF assms(2)]) simp
  then have sq0: "0 \<le> twapSliceQty totalQty n step"
    by (simp add: twapSliceQty_def floorTo_def)
  have sq1: "twapSliceQty totalQty n step \<le> totalQty / of_nat n"
    unfolding twapSliceQty_def using assms(2) by (rule floorTo_le)
  have "twapSliceQty totalQty n step * of_nat (n - 1) \<le> totalQty / of_nat n * of_nat (n - 1)"
    using sq1 by (rule mult_right_mono) simp
  also have "\<dots> = totalQty * (of_nat (n - 1) / of_nat n)" by simp
  also have "\<dots> \<le> totalQty * 1"
    using assms(3) n by (intro mult_left_mono) (simp_all add: of_nat_diff)
  finally have "0 \<le> totalQty - twapSliceQty totalQty n step * of_nat (n - 1)" by simp
  then show ?thesis using sq0 assms(1) by (auto simp add: twapSlices_def)
qed

text \<open>
  C3, amended. For every TWAP plan with at least one interval and a positive step: the
  slice quantity is \<open>totalQuantity / numIntervals\<close> floored to the step, the final slice is
  \<open>totalQuantity - sliceQty * (numIntervals - 1)\<close>, and the slice quantities of the plan
  sum to the total quantity. When every slice passes validation, the dispatched quantities
  sum to the total quantity floored to the step, which is not above the total quantity and
  less than one step below it. Whatever slices are rejected, the dispatched quantities of
  a plan with a non-negative total never sum to more than the total.
\<close>

theorem twap_slices_sum:
  assumes "1 \<le> n" and "0 < stepSize rule"
  shows "twapSliceQty totalQty n (stepSize rule) = floorTo (totalQty / of_nat n) (stepSize rule)
    \<and> twapSlices totalQty n (stepSize rule)
        = replicate (n - 1) (twapSliceQty totalQty n (stepSize rule))
          @ [totalQty - twapSliceQty totalQty n (stepSize rule) * of_nat (n - 1)]
    \<and> sum_list (twapSlices totalQty n (stepSize rule)) = totalQty
    \<and> ((\<forall>req\<in>set (twapChildren sy sd totalQty n rule). \<exists>v. validate cur req (Some rule) = Inr v)
        \<longrightarrow> sum_list (map vQuantity (dispatchedOrders cur (Some rule) (twapChildren sy sd totalQty n rule)))
              = floorTo totalQty (stepSize rule)
          \<and> floorTo totalQty (stepSize rule) \<le> totalQty
          \<and> totalQty - stepSize rule < floorTo totalQty (stepSize rule))
    \<and> (0 \<le> totalQty
        \<longrightarrow> sum_list (map vQuantity (dispatchedOrders cur (Some rule) (twapChildren sy sd totalQty n rule)))
              \<le> totalQty)"
proof (intro conjI impI)
  show "twapSliceQty totalQty n (stepSize rule) = floorTo (totalQty / of_nat n) (stepSize rule)"
    by (simp add: twapSliceQty_def)
  show "twapSlices totalQty n (stepSize rule)
        = replicate (n - 1) (twapSliceQty totalQty n (stepSize rule))
          @ [totalQty - twapSliceQty totalQty n (stepSize rule) * of_nat (n - 1)]"
    using assms(1) by (simp add: twapSlices_def)
  show "sum_list (twapSlices totalQty n (stepSize rule)) = totalQty"
    using assms(1) by (rule twapSlices_sum)
  show "floorTo totalQty (stepSize rule) \<le> totalQty"
    using assms(2) by (rule floorTo_le)
  show "totalQty - stepSize rule < floorTo totalQty (stepSize rule)"
    using assms(2) by (rule floorTo_gt)
next
  assume "\<forall>req\<in>set (twapChildren sy sd totalQty n rule). \<exists>v. validate cur req (Some rule) = Inr v"
  then have "map vQuantity (dispatchedOrders cur (Some rule) (twapChildren sy sd totalQty n rule))
    = map (\<lambda>req. floorTo (qtyOf req) (stepSize rule)) (twapChildren sy sd totalQty n rule)"
    by (rule dispatched_all_valid)
  also have "\<dots> = map (\<lambda>q. floorTo q (stepSize rule)) (map qtyOf (twapChildren sy sd totalQty n rule))"
    by (simp add: comp_def)
  finally show "sum_list (map vQuantity (dispatchedOrders cur (Some rule) (twapChildren sy sd totalQty n rule)))
              = floorTo totalQty (stepSize rule)"
    using twapSlices_floored_sum [OF assms] by (simp add: twapChildren_qty)
next
  assume t: "0 \<le> totalQty"
  have "\<forall>req\<in>set (twapChildren sy sd totalQty n rule). 0 \<le> qtyOf req"
    using twapSlices_nonneg [OF assms t] twapChildren_qty [of sy sd totalQty n rule]
    by (metis (no_types, lifting) image_iff list.set_map)
  then have "sum_list (map vQuantity (dispatchedOrders cur (Some rule) (twapChildren sy sd totalQty n rule)))
      \<le> sum_list (map qtyOf (twapChildren sy sd totalQty n rule))"
    by (rule dispatched_sum_le [OF assms(2)])
  then show "sum_list (map vQuantity (dispatchedOrders cur (Some rule) (twapChildren sy sd totalQty n rule)))
      \<le> totalQty"
    using twapSlices_sum [OF assms(1)] by (simp add: twapChildren_qty)
qed

lemma floor_slices:
  "floorTo (1 / 400) (1 / 1000) = 1 / 500"
  "floorTo (1 / 500) (1 / 1000) = 1 / 500"
  "floorTo (3 / 1000) (1 / 1000) = 3 / 1000"
  "floorTo (1 / 200) (1 / 1000) = 1 / 200"
  "floorTo (1 / 1000) (1 / 1000) = 1 / 1000"
  using floorTo_eqI [of "1 / 1000" 2 "1 / 400"] floorTo_eqI [of "1 / 1000" 2 "1 / 500"]
    floorTo_eqI [of "1 / 1000" 3 "3 / 1000"] floorTo_eqI [of "1 / 1000" 5 "1 / 200"]
    floorTo_eqI [of "1 / 1000" 1 "1 / 1000"]
  by simp_all

lemma twap_5_2: "twapSlices (5 / 1000) 2 (stepSize btcRule) = [2 / 1000, 3 / 1000]"
  by (simp add: twapSlices_def twapSliceQty_def btcRule_def floor_slices)

text \<open>
  C3, as stated, fails: a slice that fails validation is not dispatched. A total of 0.005
  in 2 intervals at step 0.001 gives the slices 0.002 and 0.003; at a price of 2000 and a
  least notional of 5 the first slice is rejected, and the dispatched quantities sum to
  0.003, two steps below the total.
\<close>

theorem twap_rejected_slice_counterexample:
  "map vQuantity (dispatchedOrders 2000 (Some btcRule)
      (twapChildren ''ETHUSDT'' ''BUY'' (5 / 1000) 2 btcRule)) = [3 / 1000]
   \<and> floorTo (5 / 1000) (stepSize btcRule) = 5 / 1000
   \<and> \<not> \<bar>floorTo (5 / 1000) (stepSize btcRule)
          - sum_list (map vQuantity (dispatchedOrders 2000 (Some btcRule)
              (twapChildren ''ETHUSDT'' ''BUY'' (5 / 1000) 2 btcRule)))\<bar> \<le> stepSize btcRule"
proof -
  have d: "map vQuantity (dispatchedOrders 2000 (Some btcRule)
      (twapChildren ''ETHUSDT'' ''BUY'' (5 / 1000) 2 btcRule)) = [3 / 1000]"
    unfolding twapChildren_def twap_5_2
    by (simp add: dispatchedOrders_def validate_def validatePrice_def validateStopPrice_def
        btcRule_def floor_slices)
  have f: "floorTo (5 / 1000) (stepSize btcRule) = 5 / 1000"
    by (simp add: btcRule_def floor_slices)
  show ?thesis unfolding d f by (simp add: btcRule_def)
qed

lemma twap_3_3: "twapSlices (3 / 1000) 3 (stepSize btcRule) = [1 / 1000, 1 / 1000, 1 / 1000]"
  by (simp add: twapSlices_def twapSliceQty_def btcRule_def floor_slices numeral_3_eq_3)

theorem twap_slices_sum_witness:
  "twapSlices (3 / 1000) 3 (stepSize btcRule) = [1 / 1000, 1 / 1000, 1 / 1000]
   \<and> sum_list (twapSlices (3 / 1000) 3 (stepSize btcRule)) = 3 / 1000
   \<and> sum_list (map vQuantity (dispatchedOrders 117000 (Some btcRule)
        (twapChildren ''BTCUSDT'' ''BUY'' (3 / 1000) 3 btcRule))) = 3 / 1000
   \<and> twapOffsets 3 5 = [0, 5, 10]"
proof -
  have n: "(1::nat) \<le> 3" by simp
  have s: "0 < stepSize btcRule" by (simp add: btcRule_def)
  have valid: "\<forall>req\<in>set (twapChildren ''BTCUSDT'' ''BUY'' (3 / 1000) 3 btcRule).
      \<exists>v. validate 117000 req (Some btcRule) = Inr v"
    unfolding twapChildren_def twap_3_3
    by (simp add: validate_def validatePrice_def validateStopPrice_def btcRule_def floor_slices)
  have f: "floorTo (3 / 1000) (stepSize btcRule) = 3 / 1000"
    by (simp add: btcRule_def floor_slices)
  have o: "twapOffsets 3 5 = [0, 5, 10]"
    by (simp add: twapOffsets_def upt_rec)
  note t = twap_slices_sum [OF n s, of "3 / 1000" "''BTCUSDT''" "''BUY''" 117000]
  have sum1: "sum_list (twapSlices (3 / 1000) 3 (stepSize btcRule)) = 3 / 1000"
    using t by blast
  have "sum_list (map vQuantity (dispatchedOrders 117000 (Some btcRule)
        (twapChildren ''BTCUSDT'' ''BUY'' (3 / 1000) 3 btcRule)))
      = floorTo (3 / 1000) (stepSize btcRule)"
    using t valid by blast
  then have sum2: "sum_list (map vQuantity (dispatchedOrders 117000 (Some btcRule)
        (twapChildren ''BTCUSDT'' ''BUY'' (3 / 1000) 3 btcRule))) = 3 / 1000"
    unfolding f .
  show ?thesis
    by (intro conjI) (rule twap_3_3 sum1 sum2 o)+
qed

subsection \<open>Grid\<close>























end
